theory Spec2Isabelle
  imports Complex_Main
begin

section \<open>The performance-level controller of \<open>XROptimizationManager\<close>\<close>

text \<open>
  A shallow embedding of the performance-level logic of
  \<^verbatim>\<open>src/js/integration_manager.js\<close>: \<^verbatim>\<open>detectOptimalPerformanceLevel\<close>,
  \<^verbatim>\<open>setPerformanceLevel\<close>, \<^verbatim>\<open>applyGlobalPerformanceSettings\<close>, the performance and error
  handlers, \<^verbatim>\<open>boostPerformanceTemporarily\<close>, \<^verbatim>\<open>recoverFromError\<close> and \<^verbatim>\<open>emit\<close>.

  JavaScript strings are \<open>string\<close>; the numbers the code only compares with constants are
  \<open>rat\<close> (device memory, pixel ratio: every finite double is a rational, and a comparison
  with 4, 8, 2 or 1.5 is exact) or \<open>nat\<close> (core count, milliseconds). A method that may
  throw returns a \<open>completion\<close> beside the state it leaves behind, since the assignments made
  before a \<^verbatim>\<open>throw\<close> persist. Informational \<^verbatim>\<open>console.log\<close> calls are not modelled;
  \<^verbatim>\<open>console.warn\<close> and \<^verbatim>\<open>console.error\<close> are, as entries of the trace.
\<close>

subsection \<open>Values\<close>

text \<open>
  A thrown value, or the \<^verbatim>\<open>error\<close> property of an error event. The code reads only its
  \<^verbatim>\<open>message\<close>: \<open>ErrorWithMessage m\<close> is a value whose \<^verbatim>\<open>message\<close> is the string \<open>m\<close>;
  \<open>ValueWithoutMessage\<close> is any value without a string \<^verbatim>\<open>message\<close> (\<^verbatim>\<open>null\<close>, as on the
  error event of a cross-origin script; \<^verbatim>\<open>undefined\<close>; a thrown primitive).
\<close>

datatype js_error = ErrorWithMessage string | ValueWithoutMessage

datatype completion = Returned | Threw js_error

text \<open>The second argument of \<^verbatim>\<open>emit\<close>: absent, \<^verbatim>\<open>{ level }\<close> or \<^verbatim>\<open>{ error }\<close>.\<close>

datatype payload = NoData | LevelData string | ErrorData js_error

datatype effect =
    ConsoleWarn string string
  | ConsoleError string js_error
  | QualityLevelSet string string
  | ListenerCalled nat string payload
  | UncaughtException js_error

text \<open>
  A registered callback: an identity, to tell the calls apart in the trace, and what a call
  with a payload does (\<open>None\<close>: it returns; \<open>Some e\<close>: it throws \<open>e\<close>). A callback
  of this kind is a function of its payload and does not call back into the manager; the
  callbacks that call \<^verbatim>\<open>on\<close> and \<^verbatim>\<open>off\<close> while an event is dispatched are those of the
  event system below.
\<close>

record listener =
  lid :: nat
  invoke :: "payload \<Rightarrow> js_error option"

text \<open>
  An entry of \<^verbatim>\<open>this.components\<close>. The classes are not part of the repository: the
  optional method \<^verbatim>\<open>setQualityLevel\<close> is a parameter (absent, or a function that returns
  or throws).
\<close>

record component =
  setQualityLevel :: "(string \<Rightarrow> js_error option) option"

datatype timer_callback = UpgradeCallback | RevertCallback string

record timer =
  due :: nat
  action :: timer_callback

record renderer =
  shadowMapEnabled :: bool
  pixelRatio :: rat

text \<open>
  The fields of \<^verbatim>\<open>this\<close> the modelled methods read or write, and the part of the browser
  they act on: the renderer of the scene (\<open>None\<close>: no scene, or a scene without renderer),
  \<^verbatim>\<open>window.devicePixelRatio\<close>, the clock and the pending \<^verbatim>\<open>setTimeout\<close> callbacks, and
  the trace of the calls made to the outside.
\<close>

record manager =
  currentPerformanceLevel :: string
  enableVoiceOptimization :: bool
  performanceTarget :: string
  components :: "(string \<times> component option) list"
  listeners :: "string \<rightharpoonup> listener list"
  sceneRenderer :: "renderer option"
  devicePixelRatio :: rat
  now :: nat
  timers :: "timer list"
  trace :: "effect list"

text \<open>
  What \<^verbatim>\<open>detectOptimalPerformanceLevel\<close> reads from the browser: the \<^verbatim>\<open>RENDERER\<close> string
  of the WebGL context (\<open>None\<close>: neither \<^verbatim>\<open>getContext\<close> call gave a context),
  \<^verbatim>\<open>navigator.deviceMemory\<close> and \<^verbatim>\<open>navigator.hardwareConcurrency\<close> (\<open>None\<close>: undefined).
\<close>

record browser =
  webglRenderer :: "string option"
  deviceMemory :: "rat option"
  hardwareConcurrency :: "nat option"

subsection \<open>Strings and defaults\<close>

text \<open>\<^verbatim>\<open>String.prototype.includes\<close>: the second string occurs in the first.\<close>

fun str_includes :: "string \<Rightarrow> string \<Rightarrow> bool" where
  "str_includes [] t = (t = [])"
| "str_includes (c # cs) t = (take (length t) (c # cs) = t \<or> str_includes cs t)"

text \<open>\<^verbatim>\<open>x || d\<close> on a number that may be undefined: \<^verbatim>\<open>undefined\<close> and \<^verbatim>\<open>0\<close> are falsy.\<close>

definition orDefault :: "('a::zero) option \<Rightarrow> 'a \<Rightarrow> 'a" where
  "orDefault x d = (case x of None \<Rightarrow> d | Some v \<Rightarrow> if v = 0 then d else v)"

definition levels :: "string list" where
  "levels = [''high'', ''medium'', ''low'']"

subsection \<open>Device classification (lines 395 to 416)\<close>

definition performanceScore :: "rat \<Rightarrow> nat \<Rightarrow> string \<Rightarrow> nat" where
  "performanceScore memory cores renderer =
     (let score = 0;
          score = (if memory \<ge> 8 then score + 3
                   else if memory \<ge> 4 then score + 2
                   else score + 1);
          score = (if cores \<ge> 8 then score + 3
                   else if cores \<ge> 4 then score + 2
                   else score + 1);
          score = (if str_includes renderer ''GeForce'' \<or> str_includes renderer ''Radeon''
                      \<or> str_includes renderer ''Intel Iris''
                   then score + 2
                   else score + 1)
      in score)"

definition levelOfScore :: "nat \<Rightarrow> string" where
  "levelOfScore score =
     (if score \<ge> 7 then ''high''
      else if score \<le> 4 then ''low''
      else ''medium'')"

definition classifyDevice :: "rat \<Rightarrow> nat \<Rightarrow> string \<Rightarrow> string" where
  "classifyDevice memory cores renderer = levelOfScore (performanceScore memory cores renderer)"

text \<open>The classification as the specification words it, to compare with the code's.\<close>

datatype gpu_class = RecognizedGPU | OtherGPU

definition gpuClass :: "string \<Rightarrow> gpu_class" where
  "gpuClass renderer =
     (if str_includes renderer ''GeForce'' \<or> str_includes renderer ''Radeon''
         \<or> str_includes renderer ''Intel Iris''
      then RecognizedGPU else OtherGPU)"

definition spec_memory_tier :: "rat \<Rightarrow> nat" where
  "spec_memory_tier memory = (if memory < 4 then 1 else if memory < 8 then 2 else 3)"

definition spec_cpu_tier :: "nat \<Rightarrow> nat" where
  "spec_cpu_tier cores = (if cores < 4 then 1 else if cores < 8 then 2 else 3)"

definition spec_gpu_tier :: "gpu_class \<Rightarrow> nat" where
  "spec_gpu_tier g = (case g of RecognizedGPU \<Rightarrow> 2 | OtherGPU \<Rightarrow> 1)"

definition spec_score :: "rat \<Rightarrow> nat \<Rightarrow> gpu_class \<Rightarrow> nat" where
  "spec_score memory cores g = spec_memory_tier memory + spec_cpu_tier cores + spec_gpu_tier g"

definition spec_level :: "nat \<Rightarrow> string" where
  "spec_level score = (if score \<ge> 7 then ''high'' else if score \<le> 4 then ''low'' else ''medium'')"

subsection \<open>The event emitter (lines 724 to 734)\<close>

text \<open>
  The \<^verbatim>\<open>forEach\<close> over the callbacks of one event: each call is recorded; a callback that
  throws is caught, logged with \<^verbatim>\<open>console.error\<close>, and the loop goes on.
\<close>

fun callListeners :: "string \<Rightarrow> payload \<Rightarrow> listener list \<Rightarrow> effect list" where
  "callListeners event data [] = []"
| "callListeners event data (l # ls) =
     ListenerCalled (lid l) event data #
     (case invoke l data of
        None \<Rightarrow> []
      | Some error \<Rightarrow> [ConsoleError (''Error in event listener for '' @ event @ '':'') error])
     @ callListeners event data ls"

definition emit :: "string \<Rightarrow> payload \<Rightarrow> manager \<Rightarrow> manager" where
  "emit event data s =
     (case listeners s event of
        None \<Rightarrow> s
      | Some callbacks \<Rightarrow> s\<lparr>trace := trace s @ callListeners event data callbacks\<rparr>)"

subsection \<open>Setting the level (lines 422 to 478)\<close>

text \<open>
  The \<^verbatim>\<open>forEach\<close> over \<^verbatim>\<open>Object.values(this.components)\<close>: the calls made, and how the
  loop ends. A \<^verbatim>\<open>setQualityLevel\<close> that throws ends it: nothing catches here.
\<close>

fun notifyComponents :: "string \<Rightarrow> (string \<times> component option) list \<Rightarrow> effect list \<times> completion" where
  "notifyComponents level [] = ([], Returned)"
| "notifyComponents level ((name, c) # rest) =
     (case c of
        None \<Rightarrow> notifyComponents level rest
      | Some component \<Rightarrow>
          (case setQualityLevel component of
             None \<Rightarrow> notifyComponents level rest
           | Some f \<Rightarrow>
               (case f level of
                  Some error \<Rightarrow> ([QualityLevelSet name level], Threw error)
                | None \<Rightarrow>
                    (QualityLevelSet name level # fst (notifyComponents level rest),
                     snd (notifyComponents level rest)))))"

definition applyGlobalPerformanceSettings :: "string \<Rightarrow> manager \<Rightarrow> manager" where
  "applyGlobalPerformanceSettings level s =
     (case sceneRenderer s of
        None \<Rightarrow> s
      | Some r \<Rightarrow>
          (if level = ''low''
           then s\<lparr>sceneRenderer := Some (r\<lparr>shadowMapEnabled := False, pixelRatio := 1\<rparr>)\<rparr>
           else s\<lparr>sceneRenderer := Some (r\<lparr>shadowMapEnabled := True,
                    pixelRatio := min (devicePixelRatio s) (if level = ''high'' then 2 else 3 / 2)\<rparr>)\<rparr>))"

text \<open>
  The argument is a string. A value that is no string fails the test of line 423 as a string
  other than the three does, and takes the same branch.
\<close>

definition setPerformanceLevel :: "string \<Rightarrow> manager \<Rightarrow> manager \<times> completion" where
  "setPerformanceLevel level s =
     (if level \<notin> set levels
      then (s\<lparr>trace := trace s @ [ConsoleWarn ''Invalid performance level:'' level]\<rparr>, Returned)
      else
        (let s1 = s\<lparr>currentPerformanceLevel := level\<rparr>;
             notified = notifyComponents level (components s1);
             s2 = s1\<lparr>trace := trace s1 @ fst notified\<rparr>
         in case snd notified of
              Threw error \<Rightarrow> (s2, Threw error)
            | Returned \<Rightarrow>
                (emit ''performanceLevelChanged'' (LevelData level)
                   (applyGlobalPerformanceSettings level s2), Returned)))"

subsection \<open>Automatic detection (lines 356 to 363 and 381 to 420)\<close>

definition detectOptimalPerformanceLevel :: "browser \<Rightarrow> manager \<Rightarrow> manager \<times> completion" where
  "detectOptimalPerformanceLevel b s =
     (case webglRenderer b of
        None \<Rightarrow> setPerformanceLevel ''low'' s
      | Some renderer \<Rightarrow>
          (let memory = orDefault (deviceMemory b) 4;
               cores = orDefault (hardwareConcurrency b) 4
           in setPerformanceLevel (classifyDevice memory cores renderer) s))"

definition setupPerformanceAdaptation :: "browser \<Rightarrow> manager \<Rightarrow> manager \<times> completion" where
  "setupPerformanceAdaptation b s =
     (if performanceTarget s = ''auto''
      then detectOptimalPerformanceLevel b s
      else setPerformanceLevel (performanceTarget s) s)"

subsection \<open>Timers\<close>

text \<open>
  \<^verbatim>\<open>setTimeout(callback, delay)\<close>: the callback is queued for the time \<open>now + delay\<close>. The
  code keeps no timer handle and never calls \<^verbatim>\<open>clearTimeout\<close>, so a queued callback
  leaves the queue only by running.
\<close>

definition setTimeout :: "timer_callback \<Rightarrow> nat \<Rightarrow> manager \<Rightarrow> manager" where
  "setTimeout callback delay s =
     s\<lparr>timers := timers s @ [\<lparr>due = now s + delay, action = callback\<rparr>]\<rparr>"

subsection \<open>Performance handlers (lines 481 to 513 and 576 to 586)\<close>

definition handleLowPerformance :: "manager \<Rightarrow> manager \<times> completion" where
  "handleLowPerformance s =
     (if currentPerformanceLevel s \<noteq> ''low''
      then (let newLevel = (if currentPerformanceLevel s = ''high'' then ''medium'' else ''low'')
            in setPerformanceLevel newLevel s)
      else (s, Returned))"

definition handleGoodPerformance :: "manager \<Rightarrow> manager \<times> completion" where
  "handleGoodPerformance s = (setTimeout UpgradeCallback 5000 s, Returned)"

definition boostPerformanceTemporarily :: "nat \<Rightarrow> manager \<Rightarrow> manager \<times> completion" where
  "boostPerformanceTemporarily duration s =
     (let originalLevel = currentPerformanceLevel s
      in if originalLevel \<noteq> ''high''
         then (case setPerformanceLevel ''high'' s of
                 (s1, Threw error) \<Rightarrow> (s1, Threw error)
               | (s1, Returned) \<Rightarrow> (setTimeout (RevertCallback originalLevel) duration s1, Returned))
         else (s, Returned))"

definition handleVoiceActivityStart :: "manager \<Rightarrow> manager \<times> completion" where
  "handleVoiceActivityStart s = boostPerformanceTemporarily 5000 (emit ''voiceActivityStart'' NoData s)"

text \<open>The bodies of the two arrow functions handed to \<^verbatim>\<open>setTimeout\<close> (lines 507 and 582).\<close>

fun runCallback :: "timer_callback \<Rightarrow> manager \<Rightarrow> manager \<times> completion" where
  "runCallback UpgradeCallback s =
     (if currentPerformanceLevel s \<noteq> ''high''
      then (let newLevel = (if currentPerformanceLevel s = ''low'' then ''medium'' else ''high'')
            in setPerformanceLevel newLevel s)
      else (s, Returned))"
| "runCallback (RevertCallback originalLevel) s = setPerformanceLevel originalLevel s"

text \<open>
  The browser runs a due timer as a task of its own: an exception that leaves the callback
  is reported as uncaught and the next task runs. The error event the browser may fire on
  the window for it is an event of its own (\<open>handleGlobalError\<close> below), not a part of the
  timer's run.
\<close>

definition runTimer :: "timer \<Rightarrow> manager \<Rightarrow> manager" where
  "runTimer t s =
     (case runCallback (action t) (s\<lparr>now := max (now s) (due t)\<rparr>) of
        (s', Returned) \<Rightarrow> s'
      | (s', Threw error) \<Rightarrow> s'\<lparr>trace := trace s' @ [UncaughtException error]\<rparr>)"

text \<open>
  \<open>d\<close> milliseconds pass with no other event: the timers due by then run, the earliest first
  and in the order of their \<^verbatim>\<open>setTimeout\<close> calls where two are due together. No callback
  of this program queues a timer, so the timers due are those of the queue at the start.
\<close>

definition elapse :: "nat \<Rightarrow> manager \<Rightarrow> manager" where
  "elapse d s =
     (let t = now s + d;
          ready = sort_key due (filter (\<lambda>x. due x \<le> t) (timers s));
          waiting = filter (\<lambda>x. \<not> due x \<le> t) (timers s)
      in (fold runTimer ready (s\<lparr>timers := waiting\<rparr>))\<lparr>now := t\<rparr>)"

subsection \<open>Error recovery (lines 567 to 573 and 613 to 624)\<close>

text \<open>What \<^verbatim>\<open>error.message.includes\<close> throws when \<^verbatim>\<open>error.message\<close> is no string.\<close>

definition typeError :: js_error where
  "typeError = ErrorWithMessage ''TypeError''"

definition recoverFromError :: "js_error \<Rightarrow> manager \<Rightarrow> manager \<times> completion" where
  "recoverFromError error s =
     (case error of
        ValueWithoutMessage \<Rightarrow> (s, Threw typeError)
      | ErrorWithMessage m \<Rightarrow>
          (let s1 = (if str_includes m ''voice'' \<or> str_includes m ''audio''
                     then s\<lparr>enableVoiceOptimization := False\<rparr> else s)
           in if currentPerformanceLevel s1 = ''high''
              then setPerformanceLevel ''medium'' s1
              else (s1, Returned)))"

definition handleGlobalError :: "js_error \<Rightarrow> manager \<Rightarrow> manager \<times> completion" where
  "handleGlobalError error s =
     recoverFromError error
       (emit ''globalError'' (ErrorData error)
          (s\<lparr>trace := trace s @ [ConsoleError ''Global error:'' error]\<rparr>))"

subsection \<open>Concrete managers\<close>

text \<open>
  The fields as the constructor leaves them (lines 12, 17 to 25, 30 and 33), in a browser
  without scene, at time 0.
\<close>

definition nullComponents :: "(string \<times> component option) list" where
  "nullComponents =
     [(''apiClient'', None), (''chatManager'', None), (''messagePool'', None),
      (''voiceManager'', None), (''vadDetector'', None), (''performanceMonitor'', None),
      (''spatialOptimizer'', None)]"

definition constructed :: manager where
  "constructed =
     \<lparr>currentPerformanceLevel = ''high'', enableVoiceOptimization = True,
      performanceTarget = ''auto'', components = nullComponents, listeners = Map.empty,
      sceneRenderer = None, devicePixelRatio = 1, now = 0, timers = [], trace = []\<rparr>"

text \<open>
  A manager at a given level with one collaborator that accepts quality levels and one
  listener of \<^verbatim>\<open>performanceLevelChanged\<close>, both returning normally.
\<close>

definition quietComponent :: component where
  "quietComponent = \<lparr>setQualityLevel = Some (\<lambda>level. None)\<rparr>"

definition quietListener :: "nat \<Rightarrow> listener" where
  "quietListener n = \<lparr>lid = n, invoke = (\<lambda>data. None)\<rparr>"

definition wired :: "string \<Rightarrow> manager" where
  "wired level =
     constructed
       \<lparr>currentPerformanceLevel := level,
        components :=
          [(''apiClient'', None), (''chatManager'', Some quietComponent), (''messagePool'', None),
           (''voiceManager'', None), (''vadDetector'', None), (''performanceMonitor'', None),
           (''spatialOptimizer'', None)],
        listeners := [''performanceLevelChanged'' \<mapsto> [quietListener 1]]\<rparr>"

subsection \<open>Reading the trace\<close>

text \<open>The calls to the outside made between a state and a later one.\<close>

definition newCalls :: "manager \<Rightarrow> manager \<Rightarrow> effect list" where
  "newCalls s s' = drop (length (trace s)) (trace s')"

text \<open>The listeners called, and the errors logged with \<^verbatim>\<open>console.error\<close>, in their order.\<close>

fun calledListeners :: "effect list \<Rightarrow> nat list" where
  "calledListeners [] = []"
| "calledListeners (ListenerCalled n event data # es) = n # calledListeners es"
| "calledListeners (e # es) = calledListeners es"

fun loggedErrors :: "effect list \<Rightarrow> js_error list" where
  "loggedErrors [] = []"
| "loggedErrors (ConsoleError text error # es) = error # loggedErrors es"
| "loggedErrors (e # es) = loggedErrors es"

text \<open>The names of the collaborators that have a \<^verbatim>\<open>setQualityLevel\<close> method.\<close>

fun adjustable :: "(string \<times> component option) list \<Rightarrow> string list" where
  "adjustable [] = []"
| "adjustable ((name, None) # rest) = adjustable rest"
| "adjustable ((name, Some c) # rest) =
     (if setQualityLevel c = None then adjustable rest else name # adjustable rest)"

text \<open>The callbacks registered for an event: none when the map has no entry.\<close>

definition registered :: "string \<Rightarrow> manager \<Rightarrow> listener list" where
  "registered event s = (case listeners s event of None \<Rightarrow> [] | Some callbacks \<Rightarrow> callbacks)"

subsection \<open>The event system with callbacks that subscribe and unsubscribe (lines 706 to 734)\<close>

text \<open>
  \<^verbatim>\<open>on\<close>, \<^verbatim>\<open>off\<close> and \<^verbatim>\<open>emit\<close> on the part of \<^verbatim>\<open>this\<close> they touch, the map
  \<^verbatim>\<open>this.listeners\<close>, with callbacks that may themselves call \<^verbatim>\<open>on\<close> and \<^verbatim>\<open>off\<close> before
  they return or throw. A callback is a function object: \<^verbatim>\<open>indexOf\<close> in \<^verbatim>\<open>off\<close> compares
  by identity, which is \<open>cid\<close> here, so \<^verbatim>\<open>off\<close> takes the identity of its argument.
\<close>

datatype callback =
    Callback (cid: nat) (run: "payload \<Rightarrow> subscription_call list \<times> js_error option")
  and subscription_call = CallOn string callback | CallOff string nat

record event_system =
  registry :: "string \<rightharpoonup> callback list"
  calls :: "effect list"

text \<open>\<^verbatim>\<open>callbacks.splice(index, 1)\<close> at the first index that holds the function.\<close>

fun spliceFirst :: "nat \<Rightarrow> callback list \<Rightarrow> callback list" where
  "spliceFirst identity [] = []"
| "spliceFirst identity (c # cs) = (if cid c = identity then cs else c # spliceFirst identity cs)"

definition on :: "string \<Rightarrow> callback \<Rightarrow> event_system \<Rightarrow> event_system" where
  "on event callback s =
     (case registry s event of
        None \<Rightarrow> s\<lparr>registry := (registry s)(event \<mapsto> [callback])\<rparr>
      | Some callbacks \<Rightarrow> s\<lparr>registry := (registry s)(event \<mapsto> callbacks @ [callback])\<rparr>)"

definition off :: "string \<Rightarrow> nat \<Rightarrow> event_system \<Rightarrow> event_system" where
  "off event identity s =
     (case registry s event of
        None \<Rightarrow> s
      | Some callbacks \<Rightarrow>
          s\<lparr>registry := (registry s)(event \<mapsto> spliceFirst identity callbacks)\<rparr>)"

fun perform :: "subscription_call \<Rightarrow> event_system \<Rightarrow> event_system" where
  "perform (CallOn event callback) s = on event callback s"
| "perform (CallOff event identity) s = off event identity s"

text \<open>
  The body of the arrow function at lines 726 to 732: the callback is called, makes its
  calls to \<^verbatim>\<open>on\<close> and \<^verbatim>\<open>off\<close>, and what it throws is caught and logged.
\<close>

definition invokeCallback :: "string \<Rightarrow> payload \<Rightarrow> callback \<Rightarrow> event_system \<Rightarrow> event_system" where
  "invokeCallback event data callback s =
     (let s1 = s\<lparr>calls := calls s @ [ListenerCalled (cid callback) event data]\<rparr>;
          s2 = fold perform (fst (run callback data)) s1
      in case snd (run callback data) of
           None \<Rightarrow> s2
         | Some error \<Rightarrow>
             s2\<lparr>calls := calls s2 @
               [ConsoleError (''Error in event listener for '' @ event @ '':'') error]\<rparr>)"

text \<open>
  \<^verbatim>\<open>Array.prototype.forEach\<close> on the array of the event, which \<^verbatim>\<open>on\<close> and \<^verbatim>\<open>off\<close> change
  in place: the length is read once, before the first call; then for each index \<open>k\<close> below
  it, in order, the element that the array holds at \<open>k\<close> at that moment is called, and an
  index the array no longer has is passed over. \<open>n\<close> counts the indices still to visit.
\<close>

fun forEachListener :: "string \<Rightarrow> payload \<Rightarrow> nat \<Rightarrow> nat \<Rightarrow> event_system \<Rightarrow> event_system" where
  "forEachListener event data k 0 s = s"
| "forEachListener event data k (Suc n) s =
     (case registry s event of
        None \<Rightarrow> s
      | Some callbacks \<Rightarrow>
          (if k < length callbacks
           then forEachListener event data (Suc k) n (invokeCallback event data (callbacks ! k) s)
           else forEachListener event data (Suc k) n s))"

definition emitLive :: "string \<Rightarrow> payload \<Rightarrow> event_system \<Rightarrow> event_system" where
  "emitLive event data s =
     (case registry s event of
        None \<Rightarrow> s
      | Some callbacks \<Rightarrow> forEachListener event data 0 (length callbacks) s)"

text \<open>A callback of the first kind as one of the second: it makes no call to \<^verbatim>\<open>on\<close> or \<^verbatim>\<open>off\<close>.\<close>

definition asCallback :: "listener \<Rightarrow> callback" where
  "asCallback l = Callback (lid l) (\<lambda>data. ([], invoke l data))"

text \<open>
  A callback that unsubscribes itself from the event, as a handler meant to run once does,
  and then throws; and three listeners of one event, this one first.
\<close>

definition onceThrowing :: "string \<Rightarrow> nat \<Rightarrow> callback" where
  "onceThrowing event n =
     Callback n (\<lambda>data. ([CallOff event n], Some (ErrorWithMessage ''boom'')))"

definition threeListeners :: event_system where
  "threeListeners =
     \<lparr>registry = [''ready'' \<mapsto> [onceThrowing ''ready'' 1, asCallback (quietListener 2),
        asCallback (quietListener 3)]], calls = []\<rparr>"

section \<open>Facts about the operations\<close>

subsection \<open>What each operation leaves alone\<close>

lemma emit_fields [simp]:
  "currentPerformanceLevel (emit event data s) = currentPerformanceLevel s"
  "enableVoiceOptimization (emit event data s) = enableVoiceOptimization s"
  "performanceTarget (emit event data s) = performanceTarget s"
  "components (emit event data s) = components s"
  "listeners (emit event data s) = listeners s"
  "sceneRenderer (emit event data s) = sceneRenderer s"
  "devicePixelRatio (emit event data s) = devicePixelRatio s"
  "now (emit event data s) = now s"
  "timers (emit event data s) = timers s"
  by (simp_all add: emit_def split: option.split)

lemma emit_trace:
  "trace (emit event data s) = trace s @ callListeners event data (registered event s)"
  by (simp add: emit_def registered_def split: option.split)

lemma applyGlobalPerformanceSettings_fields [simp]:
  "currentPerformanceLevel (applyGlobalPerformanceSettings level s) = currentPerformanceLevel s"
  "enableVoiceOptimization (applyGlobalPerformanceSettings level s) = enableVoiceOptimization s"
  "performanceTarget (applyGlobalPerformanceSettings level s) = performanceTarget s"
  "components (applyGlobalPerformanceSettings level s) = components s"
  "listeners (applyGlobalPerformanceSettings level s) = listeners s"
  "devicePixelRatio (applyGlobalPerformanceSettings level s) = devicePixelRatio s"
  "now (applyGlobalPerformanceSettings level s) = now s"
  "timers (applyGlobalPerformanceSettings level s) = timers s"
  "trace (applyGlobalPerformanceSettings level s) = trace s"
  by (simp_all add: applyGlobalPerformanceSettings_def split: option.split)

lemma registered_cong [simp]:
  "registered event (applyGlobalPerformanceSettings level s) = registered event s"
  "registered event (s\<lparr>trace := tr\<rparr>) = registered event s"
  "registered event (s\<lparr>currentPerformanceLevel := l\<rparr>) = registered event s"
  by (simp_all add: registered_def)

lemma setPerformanceLevel_level:
  "currentPerformanceLevel (fst (setPerformanceLevel level s)) =
     (if level \<in> set levels then level else currentPerformanceLevel s)"
  by (simp add: setPerformanceLevel_def Let_def split: completion.split)

lemma setPerformanceLevel_fields [simp]:
  "enableVoiceOptimization (fst (setPerformanceLevel level s)) = enableVoiceOptimization s"
  "performanceTarget (fst (setPerformanceLevel level s)) = performanceTarget s"
  "components (fst (setPerformanceLevel level s)) = components s"
  "listeners (fst (setPerformanceLevel level s)) = listeners s"
  "devicePixelRatio (fst (setPerformanceLevel level s)) = devicePixelRatio s"
  "now (fst (setPerformanceLevel level s)) = now s"
  "timers (fst (setPerformanceLevel level s)) = timers s"
  by (simp_all add: setPerformanceLevel_def Let_def split: completion.split)

lemma setPerformanceLevel_completion:
  "snd (setPerformanceLevel level s) =
     (if level \<in> set levels then snd (notifyComponents level (components s)) else Returned)"
  by (simp add: setPerformanceLevel_def Let_def split: completion.split)

lemma setPerformanceLevel_trace:
  "level \<in> set levels \<Longrightarrow>
   trace (fst (setPerformanceLevel level s)) =
     trace s @ fst (notifyComponents level (components s)) @
     (case snd (notifyComponents level (components s)) of
        Threw error \<Rightarrow> []
      | Returned \<Rightarrow>
          callListeners ''performanceLevelChanged'' (LevelData level)
            (registered ''performanceLevelChanged'' s))"
  by (simp add: setPerformanceLevel_def Let_def emit_trace split: completion.split)

lemma notifyComponents_quiet:
  "snd (notifyComponents level cs) = Returned \<Longrightarrow>
   fst (notifyComponents level cs) = map (\<lambda>name. QualityLevelSet name level) (adjustable cs)"
  by (induction cs rule: adjustable.induct) (auto split: option.splits)

lemma calledListeners_callListeners:
  "calledListeners (callListeners event data callbacks) = map lid callbacks"
  by (induction callbacks) (auto split: option.splits)

lemma loggedErrors_callListeners:
  "loggedErrors (callListeners event data callbacks) = List.map_filter (\<lambda>l. invoke l data) callbacks"
  by (induction callbacks) (auto split: option.splits)

subsection \<open>Timers and the passing of time\<close>

lemma setTimeout_fields [simp]:
  "currentPerformanceLevel (setTimeout callback delay s) = currentPerformanceLevel s"
  "components (setTimeout callback delay s) = components s"
  "listeners (setTimeout callback delay s) = listeners s"
  "now (setTimeout callback delay s) = now s"
  "trace (setTimeout callback delay s) = trace s"
  "timers (setTimeout callback delay s) = timers s @ [\<lparr>due = now s + delay, action = callback\<rparr>]"
  by (simp_all add: setTimeout_def)

lemma handleLowPerformance_fields [simp]:
  "timers (fst (handleLowPerformance s)) = timers s"
  "now (fst (handleLowPerformance s)) = now s"
  "components (fst (handleLowPerformance s)) = components s"
  by (simp_all add: handleLowPerformance_def Let_def)

lemma handleLowPerformance_level:
  "currentPerformanceLevel (fst (handleLowPerformance s)) =
     (if currentPerformanceLevel s = ''high'' then ''medium'' else ''low'')"
  by (simp add: handleLowPerformance_def setPerformanceLevel_level levels_def)

lemma runCallback_fields [simp]:
  "timers (fst (runCallback callback s)) = timers s"
  "now (fst (runCallback callback s)) = now s"
  "components (fst (runCallback callback s)) = components s"
  by (cases callback; simp add: Let_def)+

lemma runTimer_alt:
  "runTimer t s =
     (case snd (runCallback (action t) (s\<lparr>now := max (now s) (due t)\<rparr>)) of
        Returned \<Rightarrow> fst (runCallback (action t) (s\<lparr>now := max (now s) (due t)\<rparr>))
      | Threw error \<Rightarrow>
          (fst (runCallback (action t) (s\<lparr>now := max (now s) (due t)\<rparr>)))
            \<lparr>trace := trace (fst (runCallback (action t) (s\<lparr>now := max (now s) (due t)\<rparr>)))
               @ [UncaughtException error]\<rparr>)"
  by (simp add: runTimer_def case_prod_beta)

lemma runTimer_fields [simp]:
  "timers (runTimer t s) = timers s"
  "components (runTimer t s) = components s"
  "currentPerformanceLevel (runTimer t s) =
     currentPerformanceLevel (fst (runCallback (action t) s))"
  by (cases "action t"; simp add: runTimer_alt setPerformanceLevel_level Let_def split: completion.split)+

lemma fold_runTimer_timers [simp]: "timers (fold runTimer ts s) = timers s"
  by (induction ts arbitrary: s) simp_all

lemma elapse_timers:
  "timers (elapse d s) = filter (\<lambda>x. \<not> due x \<le> now s + d) (timers s)"
  by (simp add: elapse_def Let_def)

lemma elapse_now [simp]: "now (elapse d s) = now s + d"
  by (simp add: elapse_def Let_def)

lemma elapse_level_none:
  "\<forall>x \<in> set (timers s). now s + d < due x \<Longrightarrow>
   currentPerformanceLevel (elapse d s) = currentPerformanceLevel s"
proof -
  assume a: "\<forall>x \<in> set (timers s). now s + d < due x"
  then have "filter (\<lambda>x. due x \<le> now s + d) (timers s) = []"
    by (auto simp: filter_empty_conv)
  then show ?thesis by (simp add: elapse_def Let_def)
qed

lemma elapse_level_single:
  "timers s = [t] \<Longrightarrow> due t \<le> now s + d \<Longrightarrow>
   currentPerformanceLevel (elapse d s) = currentPerformanceLevel (fst (runCallback (action t) s))"
  apply (simp add: elapse_def Let_def)
  apply (cases "action t"; simp add: setPerformanceLevel_level Let_def)
  done

lemma handleGoodPerformance_fields [simp]:
  "timers (fst (handleGoodPerformance s)) = timers s @ [\<lparr>due = now s + 5000, action = UpgradeCallback\<rparr>]"
  "now (fst (handleGoodPerformance s)) = now s"
  "currentPerformanceLevel (fst (handleGoodPerformance s)) = currentPerformanceLevel s"
  "components (fst (handleGoodPerformance s)) = components s"
  by (simp_all add: handleGoodPerformance_def)

lemma boostPerformanceTemporarily_quiet:
  "currentPerformanceLevel s \<noteq> ''high'' \<Longrightarrow>
   snd (notifyComponents ''high'' (components s)) = Returned \<Longrightarrow>
   boostPerformanceTemporarily d s =
     (setTimeout (RevertCallback (currentPerformanceLevel s)) d (fst (setPerformanceLevel ''high'' s)),
      Returned)"
  using setPerformanceLevel_completion [of "''high''" s]
  by (cases "setPerformanceLevel ''high'' s")
    (simp add: boostPerformanceTemporarily_def Let_def levels_def)

lemma boost_fields:
  assumes "currentPerformanceLevel s \<noteq> ''high''"
    and "snd (notifyComponents ''high'' (components s)) = Returned"
  shows "timers (fst (boostPerformanceTemporarily d s)) =
           timers s @ [\<lparr>due = now s + d, action = RevertCallback (currentPerformanceLevel s)\<rparr>]"
    and "now (fst (boostPerformanceTemporarily d s)) = now s"
    and "currentPerformanceLevel (fst (boostPerformanceTemporarily d s)) = ''high''"
    and "snd (boostPerformanceTemporarily d s) = Returned"
  by (simp_all add: boostPerformanceTemporarily_quiet [OF assms] setPerformanceLevel_level levels_def)

lemma boostPerformanceTemporarily_components [simp]:
  "components (fst (boostPerformanceTemporarily d s)) = components s"
proof (cases "setPerformanceLevel ''high'' s")
  case (Pair s1 r)
  then have "components s1 = components s"
    using setPerformanceLevel_fields(3) [of "''high''" s] by simp
  with Pair show ?thesis
    by (cases r) (simp_all add: boostPerformanceTemporarily_def Let_def)
qed

subsection \<open>The event system\<close>

text \<open>
  With callbacks that make no call to \<^verbatim>\<open>on\<close> or \<^verbatim>\<open>off\<close>, the loop over the array makes
  the calls of \<open>callListeners\<close>: every callback once, in the order of registration, each
  thrown error logged, and the registrations stay as they are.
\<close>

lemma invokeCallback_asCallback:
  "invokeCallback event data (asCallback l) s =
     s\<lparr>calls := calls s @ callListeners event data [l]\<rparr>"
  by (simp add: invokeCallback_def asCallback_def split: option.split)

lemma forEachListener_asCallback:
  "registry s event = Some (map asCallback ls) \<Longrightarrow> k + n = length ls \<Longrightarrow>
   forEachListener event data k n s = s\<lparr>calls := calls s @ callListeners event data (drop k ls)\<rparr>"
proof (induction n arbitrary: k s)
  case 0
  then show ?case by simp
next
  case (Suc n)
  let ?s' = "s\<lparr>calls := calls s @ callListeners event data [ls ! k]\<rparr>"
  have k: "k < length ls" using Suc.prems(2) by simp
  have r: "registry ?s' event = Some (map asCallback ls)" using Suc.prems(1) by simp
  have "forEachListener event data k (Suc n) s = forEachListener event data (Suc k) n ?s'"
    using Suc.prems(1) k by (simp add: invokeCallback_asCallback)
  also have "\<dots> = ?s'\<lparr>calls := calls ?s' @ callListeners event data (drop (Suc k) ls)\<rparr>"
    using Suc.IH [OF r] Suc.prems(2) by simp
  also have "\<dots> = s\<lparr>calls := calls s @ callListeners event data (drop k ls)\<rparr>"
    using Cons_nth_drop_Suc [OF k, symmetric] by simp
  finally show ?case .
qed

lemma emitLive_asCallback:
  "registry s event = Some (map asCallback ls) \<Longrightarrow>
   emitLive event data s = s\<lparr>calls := calls s @ callListeners event data ls\<rparr>"
  by (simp add: emitLive_def forEachListener_asCallback)

lemma emitLive_without_subscription_calls:
  "registry s event = Some (map asCallback ls) \<Longrightarrow>
     calledListeners (drop (length (calls s)) (calls (emitLive event data s))) = map lid ls
   \<and> loggedErrors (drop (length (calls s)) (calls (emitLive event data s))) =
       List.map_filter (\<lambda>l. invoke l data) ls
   \<and> registry (emitLive event data s) = registry s"
  by (simp add: emitLive_asCallback calledListeners_callListeners loggedErrors_callListeners)

section \<open>The claims\<close>

subsection \<open>C1: device classification\<close>

text \<open>
  C1. For every device profile (memory in GB, core count, renderer string) the classification
  is a function of the profile alone. Its score is the memory tier (1 below 4, 2 from 4 and
  below 8, 3 from 8) plus the cpu tier (1 below 4 cores, 2 from 4 and below 8, 3 from 8) plus
  the gpu tier (2 for a recognized renderer, else 1); the level is high from score 7, low up to
  score 4, medium between, so always one of the three. The profile of the method is the
  memory and the core count after their default of 4, and the level is the one the method
  makes current.
\<close>

theorem classifyDevice_as_specified:
  "performanceScore memory cores renderer =
     spec_memory_tier memory + spec_cpu_tier cores + spec_gpu_tier (gpuClass renderer)
   \<and> classifyDevice memory cores renderer = spec_level (spec_score memory cores (gpuClass renderer))
   \<and> classifyDevice memory cores renderer \<in> set levels
   \<and> currentPerformanceLevel
        (fst (detectOptimalPerformanceLevel
               \<lparr>webglRenderer = Some renderer, deviceMemory = m, hardwareConcurrency = c\<rparr> s)) =
       spec_level (spec_score (orDefault m 4) (orDefault c 4) (gpuClass renderer))"
proof -
  have score: "performanceScore memory cores renderer =
      spec_memory_tier memory + spec_cpu_tier cores + spec_gpu_tier (gpuClass renderer)"
    for memory cores
    by (simp add: performanceScore_def spec_memory_tier_def spec_cpu_tier_def spec_gpu_tier_def
        gpuClass_def Let_def)
  have level: "classifyDevice memory cores renderer =
      spec_level (spec_score memory cores (gpuClass renderer))" for memory cores
    by (simp add: classifyDevice_def levelOfScore_def spec_level_def spec_score_def score)
  have valid: "classifyDevice memory cores renderer \<in> set levels" for memory cores
    by (simp add: classifyDevice_def levelOfScore_def levels_def)
  have "currentPerformanceLevel
        (fst (detectOptimalPerformanceLevel
               \<lparr>webglRenderer = Some renderer, deviceMemory = m, hardwareConcurrency = c\<rparr> s)) =
      classifyDevice (orDefault m 4) (orDefault c 4) renderer"
    using valid by (simp add: detectOptimalPerformanceLevel_def setPerformanceLevel_level Let_def)
  with score level valid show ?thesis by simp
qed

text \<open>
  The two scenarios of the specification, and a medium device.
\<close>

theorem classifyDevice_as_specified_witness:
  "classifyDevice 8 8 ''NVIDIA GeForce RTX 3080'' = ''high''
   \<and> classifyDevice 2 2 ''Mali-G72'' = ''low''
   \<and> classifyDevice 4 4 ''Mali-G72'' = ''medium''"
proof -
  have g: "gpuClass ''NVIDIA GeForce RTX 3080'' = RecognizedGPU" "gpuClass ''Mali-G72'' = OtherGPU"
    by (simp_all add: gpuClass_def)
  show ?thesis
    using classifyDevice_as_specified [of 8 8 "''NVIDIA GeForce RTX 3080''"]
      classifyDevice_as_specified [of 2 2 "''Mali-G72''"]
      classifyDevice_as_specified [of 4 4 "''Mali-G72''"]
    by (simp add: g spec_level_def spec_score_def spec_memory_tier_def spec_cpu_tier_def
        spec_gpu_tier_def)
qed

subsection \<open>C2: an invalid level\<close>

text \<open>
  C2 as stated says the call fails with an error. It does not: with the value \<^verbatim>\<open>'ultra'\<close> the
  method logs a warning and returns normally, as line 424 and 425 have it.
\<close>

theorem setPerformanceLevel_invalid_returns_counterexample:
  "setPerformanceLevel ''ultra'' (wired ''medium'') =
     ((wired ''medium'')\<lparr>trace := [ConsoleWarn ''Invalid performance level:'' ''ultra'']\<rparr>, Returned)"
  by (simp add: setPerformanceLevel_def levels_def wired_def constructed_def)

text \<open>
  C2, amended. For every value that is not one of low, medium and high, the call is rejected
  with a console warning and returns normally, no error raised; the state is unchanged: the
  current level is not modified, no collaborator is notified and no event is emitted (the
  warning is the only call made).
\<close>

theorem setPerformanceLevel_invalid_rejected:
  "level \<notin> set levels \<Longrightarrow>
     setPerformanceLevel level s =
       (s\<lparr>trace := trace s @ [ConsoleWarn ''Invalid performance level:'' level]\<rparr>, Returned)
   \<and> currentPerformanceLevel (fst (setPerformanceLevel level s)) = currentPerformanceLevel s
   \<and> (fst (setPerformanceLevel level s))\<lparr>trace := trace s\<rparr> = s
   \<and> newCalls s (fst (setPerformanceLevel level s)) = [ConsoleWarn ''Invalid performance level:'' level]"
  by (simp add: setPerformanceLevel_def newCalls_def)

theorem setPerformanceLevel_invalid_rejected_witness:
  "''ultra'' \<notin> set levels
   \<and> snd (setPerformanceLevel ''ultra'' (wired ''medium'')) = Returned
   \<and> currentPerformanceLevel (fst (setPerformanceLevel ''ultra'' (wired ''medium''))) = ''medium''
   \<and> newCalls (wired ''medium'') (fst (setPerformanceLevel ''ultra'' (wired ''medium''))) =
       [ConsoleWarn ''Invalid performance level:'' ''ultra'']"
proof -
  have h: "''ultra'' \<notin> set levels" by (simp add: levels_def)
  have l: "currentPerformanceLevel (wired ''medium'') = ''medium''"
    by (simp add: wired_def)
  show ?thesis
    using h l setPerformanceLevel_invalid_rejected [OF h, of "wired ''medium''"]
    by (simp add: newCalls_def)
qed

subsection \<open>C3: setting the same level twice\<close>

text \<open>
  C3 as stated says a second call with the same level notifies nobody. It does: two calls with
  \<^verbatim>\<open>'low'\<close> notify the collaborator twice and call the listener twice. The method has no
  comparison with the current level.
\<close>

theorem setPerformanceLevel_twice_counterexample:
  "newCalls (wired ''high'')
     (fst (setPerformanceLevel ''low'' (fst (setPerformanceLevel ''low'' (wired ''high''))))) =
   [QualityLevelSet ''chatManager'' ''low'',
    ListenerCalled 1 ''performanceLevelChanged'' (LevelData ''low''),
    QualityLevelSet ''chatManager'' ''low'',
    ListenerCalled 1 ''performanceLevelChanged'' (LevelData ''low'')]"
  by (simp add: newCalls_def setPerformanceLevel_trace levels_def registered_def wired_def
      constructed_def quietComponent_def quietListener_def)

text \<open>
  C3, amended. For every valid level, every call whose notification of the collaborators
  completes makes one round of notifications (each collaborator with a
  \<^verbatim>\<open>setQualityLevel\<close> method, in the order of the components) and then one emission of
  \<^verbatim>\<open>performanceLevelChanged\<close>, whether or not the level is already current: a second call
  in a row repeats the calls of the first.
\<close>

theorem setPerformanceLevel_notifies_every_call:
  assumes "level \<in> set levels"
    and "snd (notifyComponents level (components s)) = Returned"
  shows "newCalls s (fst (setPerformanceLevel level s)) =
           map (\<lambda>name. QualityLevelSet name level) (adjustable (components s)) @
           callListeners ''performanceLevelChanged'' (LevelData level)
             (registered ''performanceLevelChanged'' s)
       \<and> newCalls (fst (setPerformanceLevel level s))
           (fst (setPerformanceLevel level (fst (setPerformanceLevel level s)))) =
         newCalls s (fst (setPerformanceLevel level s))"
proof -
  let ?s' = "fst (setPerformanceLevel level s)"
  have r: "registered ''performanceLevelChanged'' ?s' = registered ''performanceLevelChanged'' s"
    by (simp add: registered_def)
  have one: "newCalls s' (fst (setPerformanceLevel level s')) =
           map (\<lambda>name. QualityLevelSet name level) (adjustable (components s')) @
           callListeners ''performanceLevelChanged'' (LevelData level)
             (registered ''performanceLevelChanged'' s')"
    if "snd (notifyComponents level (components s')) = Returned" for s'
    using assms(1) that
    by (simp add: newCalls_def setPerformanceLevel_trace notifyComponents_quiet)
  have "newCalls ?s' (fst (setPerformanceLevel level ?s')) =
           map (\<lambda>name. QualityLevelSet name level) (adjustable (components s)) @
           callListeners ''performanceLevelChanged'' (LevelData level)
             (registered ''performanceLevelChanged'' s)"
    using one [of ?s'] assms(2) by (simp add: r)
  with one [OF assms(2)] show ?thesis by simp
qed

theorem setPerformanceLevel_notifies_every_call_witness:
  "''low'' \<in> set levels
   \<and> snd (notifyComponents ''low'' (components (wired ''low''))) = Returned
   \<and> newCalls (wired ''low'') (fst (setPerformanceLevel ''low'' (wired ''low''))) =
       [QualityLevelSet ''chatManager'' ''low'',
        ListenerCalled 1 ''performanceLevelChanged'' (LevelData ''low'')]"
proof -
  have h1: "''low'' \<in> set levels" by (simp add: levels_def)
  have h2: "snd (notifyComponents ''low'' (components (wired ''low''))) = Returned"
    by (simp add: wired_def quietComponent_def)
  show ?thesis
    using h1 h2 setPerformanceLevel_notifies_every_call [OF h1 h2]
    by (simp add: wired_def constructed_def quietComponent_def quietListener_def registered_def)
qed

subsection \<open>C4: low performance\<close>

text \<open>
  C4. One report of low performance steps the level down one tier: from high to medium
  (not to low), from medium to low, and from low it changes nothing at all.
\<close>

theorem handleLowPerformance_one_tier:
  "(currentPerformanceLevel s = ''high'' \<longrightarrow>
      currentPerformanceLevel (fst (handleLowPerformance s)) = ''medium'')
   \<and> (currentPerformanceLevel s = ''medium'' \<longrightarrow>
      currentPerformanceLevel (fst (handleLowPerformance s)) = ''low'')
   \<and> (currentPerformanceLevel s = ''low'' \<longrightarrow> handleLowPerformance s = (s, Returned))"
  by (simp add: handleLowPerformance_def setPerformanceLevel_level levels_def)

text \<open>
  The three cases, and the scenario of the specification: high, medium, low, low.
\<close>

theorem handleLowPerformance_one_tier_witness:
  "currentPerformanceLevel (fst (handleLowPerformance (wired ''high''))) = ''medium''
   \<and> currentPerformanceLevel (fst (handleLowPerformance (wired ''medium''))) = ''low''
   \<and> handleLowPerformance (wired ''low'') = (wired ''low'', Returned)
   \<and> currentPerformanceLevel
       (fst (handleLowPerformance (fst (handleLowPerformance (fst (handleLowPerformance (wired ''high''))))))) = ''low''"
proof -
  have l: "currentPerformanceLevel (wired x) = x" for x
    by (simp add: wired_def)
  let ?s1 = "fst (handleLowPerformance (wired ''high''))"
  let ?s2 = "fst (handleLowPerformance ?s1)"
  have 1: "currentPerformanceLevel ?s1 = ''medium''"
    using handleLowPerformance_one_tier [of "wired ''high''"] by (simp add: l)
  have 2: "currentPerformanceLevel ?s2 = ''low''"
    using handleLowPerformance_one_tier [of ?s1] 1 by simp
  have 3: "handleLowPerformance ?s2 = (?s2, Returned)"
    using handleLowPerformance_one_tier [of ?s2] 2 by simp
  show ?thesis
    using 1 2 3 handleLowPerformance_one_tier [of "wired ''medium''"]
      handleLowPerformance_one_tier [of "wired ''low''"]
    by (simp add: l)
qed

subsection \<open>C5: good performance, then low performance\<close>

text \<open>
  C5 as stated says a report of low performance within the 5000 ms cancels the pending
  upgrade. It does not: at level medium, a good report, a low report one millisecond later
  (the level is low) and the rest of the 5000 ms leave the level at medium, the upgrade
  applied.
\<close>

theorem upgrade_timer_counterexample:
  "currentPerformanceLevel
     (fst (handleLowPerformance (elapse 1 (fst (handleGoodPerformance (wired ''medium'')))))) = ''low''
   \<and> currentPerformanceLevel
     (elapse 4999 (fst (handleLowPerformance (elapse 1 (fst (handleGoodPerformance (wired ''medium''))))))) = ''medium''"
  by (simp add: handleGoodPerformance_def handleLowPerformance_level elapse_level_none
      elapse_level_single [where t = "\<lparr>due = 5000, action = UpgradeCallback\<rparr>"]
      elapse_timers setPerformanceLevel_level levels_def wired_def constructed_def)

text \<open>
  C5, amended. A report of low performance within the 5000 ms after a report of good
  performance does not cancel the pending upgrade: with no other timer pending, the upgrade
  is still queued after the low report, and when the 5000 ms are over it runs and raises the
  level of that moment by one tier (low to medium, medium to high).
\<close>

theorem upgrade_not_cancelled:
  "timers s = [] \<Longrightarrow> d < 5000 \<Longrightarrow>
     timers (fst (handleLowPerformance (elapse d (fst (handleGoodPerformance s))))) =
       [\<lparr>due = now s + 5000, action = UpgradeCallback\<rparr>]
   \<and> currentPerformanceLevel (fst (handleLowPerformance (elapse d (fst (handleGoodPerformance s))))) =
       (if currentPerformanceLevel s = ''high'' then ''medium'' else ''low'')
   \<and> currentPerformanceLevel
       (elapse (5000 - d) (fst (handleLowPerformance (elapse d (fst (handleGoodPerformance s)))))) =
       (if currentPerformanceLevel s = ''high'' then ''high'' else ''medium'')
   \<and> timers (elapse (5000 - d) (fst (handleLowPerformance (elapse d (fst (handleGoodPerformance s)))))) = []"
proof -
  assume a: "timers s = []" "d < 5000"
  let ?t = "\<lparr>due = now s + 5000, action = UpgradeCallback\<rparr>"
  let ?s1 = "fst (handleGoodPerformance s)"
  let ?s2 = "fst (handleLowPerformance (elapse d ?s1))"
  have t1: "timers ?s1 = [?t]" and n1: "now ?s1 = now s"
    and l1: "currentPerformanceLevel ?s1 = currentPerformanceLevel s"
    using a by simp_all
  have le: "currentPerformanceLevel (elapse d ?s1) = currentPerformanceLevel s"
    using a by (simp add: elapse_level_none t1 n1 l1)
  have t2: "timers ?s2 = [?t]" and n2: "now ?s2 = now s + d"
    using a by (simp_all add: elapse_timers t1 n1)
  have l2: "currentPerformanceLevel ?s2 =
      (if currentPerformanceLevel s = ''high'' then ''medium'' else ''low'')"
    by (simp add: handleLowPerformance_level le)
  have l3: "currentPerformanceLevel (elapse (5000 - d) ?s2) =
      (if currentPerformanceLevel s = ''high'' then ''high'' else ''medium'')"
  proof -
    have "due ?t \<le> now ?s2 + (5000 - d)"
      using a by (simp add: n1 n2)
    from elapse_level_single [OF t2 this] show ?thesis
      by (simp add: l2 setPerformanceLevel_level levels_def)
  qed
  have t3: "timers (elapse (5000 - d) ?s2) = []"
    using a by (simp add: elapse_timers)
  from t2 l2 l3 t3 show ?thesis by simp
qed

theorem upgrade_not_cancelled_witness:
  "timers (wired ''medium'') = [] \<and> (1::nat) < 5000
   \<and> timers (fst (handleLowPerformance (elapse 1 (fst (handleGoodPerformance (wired ''medium'')))))) =
       [\<lparr>due = 5000, action = UpgradeCallback\<rparr>]
   \<and> currentPerformanceLevel
       (elapse (5000 - 1) (fst (handleLowPerformance (elapse 1 (fst (handleGoodPerformance (wired ''medium''))))))) =
       ''medium''"
proof -
  have h1: "timers (wired ''medium'') = []" by (simp add: wired_def constructed_def)
  have h2: "(1::nat) < 5000" by simp
  have f: "now (wired ''medium'') = 0" "currentPerformanceLevel (wired ''medium'') = ''medium''"
    by (simp_all add: wired_def constructed_def)
  show ?thesis
    using h1 upgrade_not_cancelled [OF h1 h2] by (simp add: f)
qed

subsection \<open>C6: a boost, then a deliberate change\<close>




subsection \<open>C7: pending timers\<close>

text \<open>
  C7 as stated says at most one timer of each kind is pending. Two reports of good
  performance leave two upgrades pending; a boost, a report of low performance and a second
  boost leave two reversions pending.
\<close>

theorem pending_timers_counterexample:
  "timers (fst (handleGoodPerformance (fst (handleGoodPerformance constructed)))) =
     [\<lparr>due = 5000, action = UpgradeCallback\<rparr>, \<lparr>due = 5000, action = UpgradeCallback\<rparr>]
   \<and> timers (fst (boostPerformanceTemporarily 1000
        (fst (handleLowPerformance (fst (boostPerformanceTemporarily 1000
           (fst (handleLowPerformance constructed)))))))) =
     [\<lparr>due = 1000, action = RevertCallback ''medium''\<rparr>,
      \<lparr>due = 1000, action = RevertCallback ''medium''\<rparr>]"
proof -
  have c: "timers constructed = []" "now constructed = 0"
    "currentPerformanceLevel constructed = ''high''" "components constructed = nullComponents"
    by (simp_all add: constructed_def)
  have q: "snd (notifyComponents ''high'' nullComponents) = Returned"
    by (simp add: nullComponents_def)
  let ?s1 = "fst (handleLowPerformance constructed)"
  have l1: "currentPerformanceLevel ?s1 = ''medium''"
    by (simp add: handleLowPerformance_level c)
  have b1: "currentPerformanceLevel ?s1 \<noteq> ''high''"
    "snd (notifyComponents ''high'' (components ?s1)) = Returned"
    by (simp_all add: l1 c q)
  let ?s2 = "fst (boostPerformanceTemporarily 1000 ?s1)"
  let ?s3 = "fst (handleLowPerformance ?s2)"
  have l3: "currentPerformanceLevel ?s3 = ''medium''"
    by (simp add: handleLowPerformance_level boost_fields [OF b1])
  have c3: "components ?s3 = nullComponents"
    by (simp add: c)
  have b3: "currentPerformanceLevel ?s3 \<noteq> ''high''"
    "snd (notifyComponents ''high'' (components ?s3)) = Returned"
    by (simp_all add: l3 c q)
  have "timers (fst (boostPerformanceTemporarily 1000 ?s3)) =
     [\<lparr>due = 1000, action = RevertCallback ''medium''\<rparr>,
      \<lparr>due = 1000, action = RevertCallback ''medium''\<rparr>]"
    by (simp add: boost_fields(1) [OF b3] l3 boost_fields(1,2) [OF b1] l1 c)
  then show ?thesis by (simp add: c)
qed

text \<open>
  C7, amended. No timer is ever cancelled: every report of good performance adds an upgrade
  to the pending timers, every boost from a level other than high whose notification of the
  collaborators completes adds a reversion, setting the level and reporting low performance
  leave the pending timers as they are, and the passing of time removes exactly the timers
  that came due. Several timers of one kind can be pending together.
\<close>

theorem timers_never_cancelled:
  "timers (fst (handleGoodPerformance s)) =
     timers s @ [\<lparr>due = now s + 5000, action = UpgradeCallback\<rparr>]
   \<and> (currentPerformanceLevel s \<noteq> ''high'' \<and> snd (notifyComponents ''high'' (components s)) = Returned \<longrightarrow>
        timers (fst (boostPerformanceTemporarily d s)) =
          timers s @ [\<lparr>due = now s + d, action = RevertCallback (currentPerformanceLevel s)\<rparr>])
   \<and> timers (fst (setPerformanceLevel level s)) = timers s
   \<and> timers (fst (handleLowPerformance s)) = timers s
   \<and> timers (elapse d s) = filter (\<lambda>x. \<not> due x \<le> now s + d) (timers s)"
  by (simp add: boost_fields elapse_timers)

theorem timers_never_cancelled_witness:
  "currentPerformanceLevel (fst (handleGoodPerformance (wired ''low''))) \<noteq> ''high''
   \<and> snd (notifyComponents ''high'' (components (fst (handleGoodPerformance (wired ''low''))))) = Returned
   \<and> timers (fst (boostPerformanceTemporarily 1000 (fst (handleGoodPerformance (wired ''low''))))) =
       [\<lparr>due = 5000, action = UpgradeCallback\<rparr>, \<lparr>due = 1000, action = RevertCallback ''low''\<rparr>]
   \<and> timers (elapse 1000 (fst (boostPerformanceTemporarily 1000 (fst (handleGoodPerformance (wired ''low'')))))) =
       [\<lparr>due = 5000, action = UpgradeCallback\<rparr>]"
proof -
  let ?s1 = "fst (handleGoodPerformance (wired ''low''))"
  have f: "timers (wired ''low'') = []" "now (wired ''low'') = 0"
    "currentPerformanceLevel (wired ''low'') = ''low''"
    by (simp_all add: wired_def constructed_def)
  have h1: "currentPerformanceLevel ?s1 \<noteq> ''high''" by (simp add: f)
  have h2: "snd (notifyComponents ''high'' (components ?s1)) = Returned"
    by (simp add: wired_def quietComponent_def)
  have t1: "timers ?s1 = [\<lparr>due = 5000, action = UpgradeCallback\<rparr>]"
    using timers_never_cancelled [of "wired ''low''"] by (simp add: f)
  have t2: "timers (fst (boostPerformanceTemporarily 1000 ?s1)) =
       [\<lparr>due = 5000, action = UpgradeCallback\<rparr>, \<lparr>due = 1000, action = RevertCallback ''low''\<rparr>]"
    using timers_never_cancelled [of ?s1 1000] h1 h2 by (simp add: t1 f)
  have n2: "now (fst (boostPerformanceTemporarily 1000 ?s1)) = 0"
    by (simp add: boost_fields(2) [OF h1 h2] f)
  have t3: "timers (elapse 1000 (fst (boostPerformanceTemporarily 1000 ?s1))) =
       [\<lparr>due = 5000, action = UpgradeCallback\<rparr>]"
    using timers_never_cancelled [of "fst (boostPerformanceTemporarily 1000 ?s1)" 1000]
    by (simp add: t2 n2)
  from h1 h2 t2 t3 show ?thesis by blast
qed

subsection \<open>C8: no graphics context\<close>

text \<open>
  C8. Without a graphics context the detection raises nothing of its own: it is the call
  that sets the level to low, so the level is low afterwards, and it returns normally
  whenever the collaborators accept the level. The adaptation step that ends the
  initialisation therefore leaves one of the three levels current, as the constructor did.
\<close>

theorem detectOptimalPerformanceLevel_without_webgl:
  "webglRenderer b = None \<Longrightarrow>
     detectOptimalPerformanceLevel b s = setPerformanceLevel ''low'' s
   \<and> currentPerformanceLevel (fst (detectOptimalPerformanceLevel b s)) = ''low''
   \<and> (snd (notifyComponents ''low'' (components s)) = Returned \<longrightarrow>
        snd (detectOptimalPerformanceLevel b s) = Returned)
   \<and> (currentPerformanceLevel s \<in> set levels \<longrightarrow>
        currentPerformanceLevel (fst (setupPerformanceAdaptation b s)) \<in> set levels)"
  by (simp add: detectOptimalPerformanceLevel_def setupPerformanceAdaptation_def
      setPerformanceLevel_level setPerformanceLevel_completion levels_def)

theorem detectOptimalPerformanceLevel_without_webgl_witness:
  "webglRenderer \<lparr>webglRenderer = None, deviceMemory = Some 8, hardwareConcurrency = Some 8\<rparr> = None
   \<and> snd (notifyComponents ''low'' (components (wired ''high''))) = Returned
   \<and> currentPerformanceLevel (wired ''high'') \<in> set levels
   \<and> currentPerformanceLevel
        (fst (detectOptimalPerformanceLevel
           \<lparr>webglRenderer = None, deviceMemory = Some 8, hardwareConcurrency = Some 8\<rparr>
           (wired ''high''))) = ''low''
   \<and> snd (detectOptimalPerformanceLevel
           \<lparr>webglRenderer = None, deviceMemory = Some 8, hardwareConcurrency = Some 8\<rparr>
           (wired ''high'')) = Returned
   \<and> currentPerformanceLevel
        (fst (setupPerformanceAdaptation
           \<lparr>webglRenderer = None, deviceMemory = Some 8, hardwareConcurrency = Some 8\<rparr>
           (wired ''high''))) \<in> set levels"
proof -
  let ?b = "\<lparr>webglRenderer = None, deviceMemory = Some 8, hardwareConcurrency = Some 8\<rparr>"
  have h: "webglRenderer ?b = None" by simp
  have q: "snd (notifyComponents ''low'' (components (wired ''high''))) = Returned"
    by (simp add: wired_def quietComponent_def)
  have v: "currentPerformanceLevel (wired ''high'') \<in> set levels"
    by (simp add: wired_def levels_def)
  show ?thesis
    using h q v detectOptimalPerformanceLevel_without_webgl [OF h, of "wired ''high''"]
    by blast
qed

subsection \<open>C9: the event emitter\<close>

text \<open>
  C9 says that \<^verbatim>\<open>emit\<close> calls every registered listener, in the order of registration,
  whichever of them throw. It does so for listeners that leave the registrations alone
  (\<open>emitLive_without_subscription_calls\<close>). It does not for every list of listeners: of three
  listeners of one event, the first of which unsubscribes itself and throws, the exception
  is caught and logged, but \<^verbatim>\<open>forEach\<close> at line 726 walks the array that \<^verbatim>\<open>off\<close> has
  just spliced at line 719, finds the third listener at index 1, and never calls the second,
  which is still registered.
\<close>

theorem emitLive_skips_after_unsubscribe:
  "map_option (map cid) (registry threeListeners ''ready'') = Some [1, 2, 3]
   \<and> calledListeners (calls (emitLive ''ready'' NoData threeListeners)) = [1, 3]
   \<and> loggedErrors (calls (emitLive ''ready'' NoData threeListeners)) = [ErrorWithMessage ''boom'']
   \<and> map_option (map cid) (registry (emitLive ''ready'' NoData threeListeners) ''ready'') =
       Some [2, 3]"
  by (simp add: emitLive_def threeListeners_def onceThrowing_def asCallback_def quietListener_def
      invokeCallback_def off_def numeral_3_eq_3)

subsection \<open>C10: a global error\<close>

text \<open>
  With an error value that has a string message the recovery does what C10 says: from high
  the level becomes medium, and medium and low stay.
\<close>

lemma handleGlobalError_with_message:
  "currentPerformanceLevel (fst (handleGlobalError (ErrorWithMessage m) s)) =
     (if currentPerformanceLevel s = ''high'' then ''medium'' else currentPerformanceLevel s)"
  by (simp add: handleGlobalError_def recoverFromError_def Let_def setPerformanceLevel_level
      levels_def)

text \<open>
  C10 says so of every global error. On an error event whose \<^verbatim>\<open>error\<close> is \<^verbatim>\<open>null\<close>, line 615
  throws at \<^verbatim>\<open>error.message\<close> before line 621 is reached: the level of the manager just
  constructed stays high.
\<close>

theorem handleGlobalError_without_message:
  "currentPerformanceLevel (fst (handleGlobalError ValueWithoutMessage constructed)) = ''high''
   \<and> snd (handleGlobalError ValueWithoutMessage constructed) = Threw typeError"
  by (simp add: handleGlobalError_def recoverFromError_def constructed_def emit_def)

end
